theory Spec2Isabelle
  imports Complex_Main
begin

section \<open>Values shared by the dashboard's code\<close>

text \<open>
  JavaScript strings are modelled as HOL strings. In the records, JavaScript numbers
  are the type variable \<open>'n\<close>: the code stores them and passes them on and never
  computes with them. The one place that makes a number is the port field's handler,
  which calls \<open>Number\<close>; there \<open>'n\<close> is \<open>jsnumber\<close>.

  An \<open>Error\<close> object is its \<open>name\<close> and its \<open>message\<close>; \<open>new Error(m)\<close> has the
  name \<open>Error\<close>. A promise settles by rejecting with an error or by fulfilling with a
  value.
\<close>

record js_error =
  name :: string
  message :: string

definition new_Error :: "string \<Rightarrow> js_error" where
  "new_Error m = \<lparr>name = ''Error'', message = m\<rparr>"

datatype 'a settled = Rejected js_error | Fulfilled 'a

section \<open>server-config.ts\<close>

text \<open>
  \<open>process.env\<close> restricted to the three variables \<open>getBackendApiUrl\<close> reads; an unset
  variable is \<open>undefined\<close>, here \<open>None\<close>.
\<close>

record process_env =
  BACKEND_API_URL :: "string option"
  API_BASE_URL :: "string option"
  NEXT_PUBLIC_API_BASE_URL :: "string option"

text \<open>
  \<open>String.prototype.trim\<close> removes white space and line terminators from both ends.
  Of the code points ECMAScript lists, those a \<open>char\<close> can hold are TAB, LF, VT, FF, CR,
  SPACE and NBSP.
\<close>

definition is_space :: "char \<Rightarrow> bool" where
  "is_space c = (of_char c \<in> {9, 10, 11, 12, 13, 32, 160 :: nat})"

definition trim :: "string \<Rightarrow> string" where
  "trim s = rev (dropWhile is_space (rev (dropWhile is_space s)))"

text \<open>\<open>a || b\<close> on values that are a string or \<open>undefined\<close>: the empty string is falsy.\<close>

definition or_js :: "string option \<Rightarrow> string option \<Rightarrow> string option" where
  "or_js a b = (case a of None \<Rightarrow> b | Some s \<Rightarrow> if s = [] then b else Some s)"

definition endsWith_slash :: "string \<Rightarrow> bool" where
  "endsWith_slash s = (s \<noteq> [] \<and> last s = CHR ''/'')"

definition getBackendApiUrl :: "process_env \<Rightarrow> js_error + string" where
  "getBackendApiUrl env =
     (let raw = or_js (or_js (map_option trim (BACKEND_API_URL env))
                             (map_option trim (API_BASE_URL env)))
                      (map_option trim (NEXT_PUBLIC_API_BASE_URL env))
      in case raw of
           None \<Rightarrow> Inl (new_Error ''Set BACKEND_API_URL (or API_BASE_URL) to your FastAPI URL.'')
         | Some r \<Rightarrow>
             if r = [] then Inl (new_Error ''Set BACKEND_API_URL (or API_BASE_URL) to your FastAPI URL.'')
             else Inr (if endsWith_slash r then butlast r else r))"

text \<open>The words of the claim: a variable is blank when it is unset or trims to nothing.\<close>

definition blank :: "string option \<Rightarrow> bool" where
  "blank v = (case v of None \<Rightarrow> True | Some s \<Rightarrow> trim s = [])"

definition first_non_blank :: "process_env \<Rightarrow> string option" where
  "first_non_blank env =
     (case find (\<lambda>v. \<not> blank v)
             [BACKEND_API_URL env, API_BASE_URL env, NEXT_PUBLIC_API_BASE_URL env] of
        None \<Rightarrow> None
      | Some v \<Rightarrow> map_option trim v)"

definition strip_slash :: "string \<Rightarrow> string" where
  "strip_slash s = (if s \<noteq> [] \<and> last s = CHR ''/'' then butlast s else s)"

section \<open>settings-client: data\<close>

datatype SettingsSection = Smtp | Users | Notifications

datatype UserRole = Admin | Inspector

record 'n Employee =
  emp_id :: "'n + string"
  card_no :: string
  employee_name :: string

record 'n SMTPSettings =
  host :: string
  port :: 'n
  username :: string
  password :: string
  from_email :: string
  from_name :: string
  use_tls :: bool
  use_ssl :: bool
  cc_list :: string
  updated_at :: "string option"

text \<open>
  The JSON body of a settings response. The source casts it to
  \<open>Omit<SMTPSettings, "password">\<close> without a check, so each key, \<open>password\<close> too, may
  be there or not; \<open>updated_at\<close> may be there and \<open>null\<close>.
\<close>

record 'n SMTPPayload =
  p_host :: "string option"
  p_port :: "'n option"
  p_username :: "string option"
  p_password :: "string option"
  p_from_email :: "string option"
  p_from_name :: "string option"
  p_use_tls :: "bool option"
  p_use_ssl :: "bool option"
  p_cc_list :: "string option"
  p_updated_at :: "string option option"

record 'n UserItem =
  user_id :: 'n
  user_email :: string
  user_username :: string
  user_role :: UserRole
  user_is_active :: bool
  user_created_at :: string
  user_updated_at :: string
  user_last_login_at :: "string option"

record NotificationResult =
  result_card_no :: string
  result_employee_name :: string
  result_status :: string
  result_notice_type :: "string option"
  result_to_email :: "string option"
  result_error :: "string option"

record 'n NotificationRunResponse =
  date :: string
  total_targets :: 'n
  sent_count :: 'n
  skipped_count :: 'n
  failed_count :: 'n
  results :: "NotificationResult list"

text \<open>The creation form's buffer, the \<open>newUser\<close> state.\<close>

record NewUser =
  new_email :: string
  new_username :: string
  new_password :: string
  new_role :: UserRole

text \<open>
  The state of \<open>SettingsClient\<close>: its \<open>section\<close> prop, what \<open>useAuthUser\<close> gives it
  (\<open>me?.role\<close>, \<open>None\<close> while \<open>me\<close> is not resolved, and the hook's \<open>error\<close>) and its
  \<open>useState\<close> cells.
\<close>

record 'n state =
  page_section :: SettingsSection
  me_role :: "UserRole option"
  auth_error :: string
  smtpForm :: "'n SMTPSettings"
  smtpLoading :: bool
  smtpSaving :: bool
  smtpMessage :: string
  users :: "'n UserItem list"
  usersLoading :: bool
  usersMessage :: string
  newUser :: NewUser
  notifyDate :: string
  notifyRunning :: bool
  notifyResult :: "'n NotificationRunResponse option"
  notifyMessage :: string
  employeeSearch :: string
  employees :: "'n Employee list"
  selectedCardNo :: string
  employeeLoading :: bool

text \<open>
  The \<open>useState\<close> initialisers; the number \<open>587\<close> and \<open>todayIsoDate()\<close> are arguments.
\<close>

definition initial_state :: "SettingsSection \<Rightarrow> UserRole option \<Rightarrow> 'n \<Rightarrow> string \<Rightarrow> 'n state" where
  "initial_state sec role port587 today =
     \<lparr>page_section = sec, me_role = role, auth_error = [],
      smtpForm = \<lparr>host = [], port = port587, username = [], password = [], from_email = [],
                  from_name = ''Oilchem Entry/Exit Admin'', use_tls = True, use_ssl = False,
                  cc_list = [], updated_at = None\<rparr>,
      smtpLoading = False, smtpSaving = False, smtpMessage = [],
      users = [], usersLoading = False, usersMessage = [],
      newUser = \<lparr>new_email = [], new_username = [], new_password = [], new_role = Inspector\<rparr>,
      notifyDate = today, notifyRunning = False, notifyResult = None, notifyMessage = [],
      employeeSearch = [], employees = [], selectedCardNo = [], employeeLoading = False\<rparr>"

section \<open>settings-client: requests and responses\<close>

datatype http_method = GET | POST | PUT | PATCH | DELETE

text \<open>
  The URLs the component builds, kept structured: \<open>EmployeesUrl q\<close> is
  \<open>/api/proxy/employees?search=\<close> followed by the encoded \<open>q\<close>, \<open>NotificationsRunUrl ps\<close> is
  \<open>/api/proxy/notifications/run?\<close> followed by the \<open>URLSearchParams\<close> entries \<open>ps\<close>.
\<close>

datatype 'n endpoint =
    SmtpSettingsUrl
  | UsersUrl
  | UserUrl 'n
  | UserResetLinkUrl 'n
  | EmployeesUrl string
  | NotificationsRunUrl "(string \<times> string) list"

record PatchPayload =
  patch_role :: "UserRole option"
  patch_is_active :: "bool option"
  patch_password :: "string option"

datatype 'n request_body =
    NoBody
  | SmtpJson "'n SMTPSettings"
  | NewUserJson NewUser
  | PatchJson PatchPayload

text \<open>A \<open>fetch\<close> call; \<open>signal\<close> is the \<open>AbortController\<close> whose signal it was given.\<close>

record 'n request =
  request_method :: http_method
  url :: "'n endpoint"
  body :: "'n request_body"
  signal :: "nat option"

record error_payload =
  error :: "string option"
  detail :: "string option"

text \<open>
  A response: its status, and what \<open>response.json()\<close> settles to under the two casts of
  the source, \<open>{detail?, error?} | null\<close> on the branch \<open>!response.ok\<close> and the success
  type \<open>'a\<close> after it. A body that is not JSON, or whose read is aborted, rejects.
\<close>

record 'a response =
  status :: nat
  error_json :: "error_payload option settled"
  data_json :: "'a settled"

definition ok :: "'a response \<Rightarrow> bool" where
  "ok r = (200 \<le> status r \<and> status r \<le> 299)"

text \<open>
  Modelled from the spec: \<open>handleUnauthorized\<close> of \<open>useAuthUser\<close>, which is not among the
  sources. The spec has a 401 on any call trigger the shared unauthorized handler
  instead of the call's own error path; the handler answers whether it took the response.
  What it does to the session is outside this component's state.
\<close>

definition handleUnauthorized :: "nat \<Rightarrow> bool" where
  "handleUnauthorized code = (code = 401)"

text \<open>\<open>await response.json().catch(() => null)\<close>\<close>

definition json_or_null :: "'a response \<Rightarrow> error_payload option" where
  "json_or_null r = (case error_json r of Rejected e \<Rightarrow> None | Fulfilled p \<Rightarrow> p)"

text \<open>\<open>payload?.error ?? payload?.detail ?? fallback\<close>\<close>

definition payload_message :: "error_payload option \<Rightarrow> string \<Rightarrow> string" where
  "payload_message payload fallback =
     (case payload of
        None \<Rightarrow> fallback
      | Some p \<Rightarrow>
          (case error p of
             Some e \<Rightarrow> e
           | None \<Rightarrow> (case detail p of Some d \<Rightarrow> d | None \<Rightarrow> fallback)))"

text \<open>The error thrown on the branch \<open>!response.ok\<close>.\<close>

definition not_ok_error :: "'a response \<Rightarrow> string \<Rightarrow> js_error" where
  "not_ok_error r fallback = new_Error (payload_message (json_or_null r) fallback)"

text \<open>\<open>(err as Error).message || fallback\<close>\<close>

definition message_or :: "js_error \<Rightarrow> string \<Rightarrow> string" where
  "message_or err fallback = (if message err = [] then fallback else message err)"

text \<open>
  The part every request handler shares after its \<open>fetch\<close> settles: a rejected fetch
  throws; a response the unauthorized handler takes makes the function return; a
  response that is not ok throws the error built from its body; otherwise the body is
  read as the success type, and a rejected read throws. \<open>Inr None\<close> is the early
  \<open>return\<close>.
\<close>

definition read_response :: "'a response settled \<Rightarrow> string \<Rightarrow> js_error + 'a response option" where
  "read_response outcome fallback =
     (case outcome of
        Rejected e \<Rightarrow> Inl e
      | Fulfilled r \<Rightarrow>
          if handleUnauthorized (status r) then Inr None
          else if \<not> ok r then Inl (not_ok_error r fallback)
          else Inr (Some r))"

section \<open>settings-client: the SMTP panel\<close>

text \<open>
  Each \<open>async\<close> function is two functions of the state: \<open>f_start\<close> runs it up to its
  \<open>fetch\<close> and gives the requests it issues, \<open>f_settled\<close> runs it from the moment the
  fetch settles to its end. Between the two the component handles other events, so
  \<open>f_settled\<close> takes the state of that later moment; none of the functions updates
  state between its awaits, and every update after them is a constant or an updater of
  the current value.
\<close>

text \<open>\<open>{ ...current, ...payload, password: "" }\<close>\<close>

definition spread :: "'a \<Rightarrow> 'a option \<Rightarrow> 'a" where
  "spread current given = (case given of None \<Rightarrow> current | Some v \<Rightarrow> v)"

definition merge_payload :: "'n SMTPSettings \<Rightarrow> 'n SMTPPayload \<Rightarrow> 'n SMTPSettings" where
  "merge_payload current payload =
     \<lparr>host = spread (host current) (p_host payload),
      port = spread (port current) (p_port payload),
      username = spread (username current) (p_username payload),
      password = [],
      from_email = spread (from_email current) (p_from_email payload),
      from_name = spread (from_name current) (p_from_name payload),
      use_tls = spread (use_tls current) (p_use_tls payload),
      use_ssl = spread (use_ssl current) (p_use_ssl payload),
      cc_list = spread (cc_list current) (p_cc_list payload),
      updated_at = spread (updated_at current) (p_updated_at payload)\<rparr>"

definition loadSmtp_start :: "'n state \<Rightarrow> 'n state \<times> 'n request list" where
  "loadSmtp_start st =
     (if me_role st \<noteq> Some Admin then (st, [])
      else (st\<lparr>smtpLoading := True, smtpMessage := [], auth_error := []\<rparr>,
            [\<lparr>request_method = GET, url = SmtpSettingsUrl, body = NoBody, signal = None\<rparr>]))"

definition loadSmtp_try :: "'n SMTPPayload response settled \<Rightarrow> 'n state \<Rightarrow> js_error + 'n state" where
  "loadSmtp_try outcome st =
     (case read_response outcome ''Failed to load SMTP settings'' of
        Inl e \<Rightarrow> Inl e
      | Inr None \<Rightarrow> Inr st
      | Inr (Some r) \<Rightarrow>
          (case data_json r of
             Rejected e \<Rightarrow> Inl e
           | Fulfilled payload \<Rightarrow> Inr (st\<lparr>smtpForm := merge_payload (smtpForm st) payload\<rparr>)))"

definition loadSmtp_settled :: "'n SMTPPayload response settled \<Rightarrow> 'n state \<Rightarrow> 'n state" where
  "loadSmtp_settled outcome st =
     (case loadSmtp_try outcome st of
        Inl err \<Rightarrow> st\<lparr>auth_error := message_or err ''Failed to load SMTP settings''\<rparr>
      | Inr st' \<Rightarrow> st')
     \<lparr>smtpLoading := False\<rparr>"

definition saveSmtpSettings_start :: "'n state \<Rightarrow> 'n state \<times> 'n request list" where
  "saveSmtpSettings_start st =
     (st\<lparr>smtpSaving := True, smtpMessage := []\<rparr>,
      [\<lparr>request_method = PUT, url = SmtpSettingsUrl, body = SmtpJson (smtpForm st), signal = None\<rparr>])"

definition saveSmtpSettings_try :: "'n SMTPPayload response settled \<Rightarrow> 'n state \<Rightarrow> js_error + 'n state" where
  "saveSmtpSettings_try outcome st =
     (case read_response outcome ''Failed to save SMTP settings'' of
        Inl e \<Rightarrow> Inl e
      | Inr None \<Rightarrow> Inr st
      | Inr (Some r) \<Rightarrow>
          (case data_json r of
             Rejected e \<Rightarrow> Inl e
           | Fulfilled payload \<Rightarrow>
               Inr (st\<lparr>smtpForm := merge_payload (smtpForm st) payload,
                       smtpMessage := ''SMTP settings saved.''\<rparr>)))"

definition saveSmtpSettings_settled :: "'n SMTPPayload response settled \<Rightarrow> 'n state \<Rightarrow> 'n state" where
  "saveSmtpSettings_settled outcome st =
     (case saveSmtpSettings_try outcome st of
        Inl err \<Rightarrow> st\<lparr>smtpMessage := message_or err ''Failed to save SMTP settings''\<rparr>
      | Inr st' \<Rightarrow> st')
     \<lparr>smtpSaving := False\<rparr>"













section \<open>settings-client: the users panel\<close>

text \<open>
  \<open>loadUsers\<close> is a \<open>useCallback\<close> over \<open>me?.role\<close>: its guard reads the role of the
  render that made the callback, the argument \<open>role\<close>, while its updates go to the
  current state.
\<close>

definition loadUsers_start :: "UserRole option \<Rightarrow> 'n state \<Rightarrow> 'n state \<times> 'n request list" where
  "loadUsers_start role st =
     (if role \<noteq> Some Admin then (st, [])
      else (st\<lparr>usersLoading := True, usersMessage := []\<rparr>,
            [\<lparr>request_method = GET, url = UsersUrl, body = NoBody, signal = None\<rparr>]))"

definition loadUsers_try :: "'n UserItem list response settled \<Rightarrow> 'n state \<Rightarrow> js_error + 'n state" where
  "loadUsers_try outcome st =
     (case read_response outcome ''Failed to load users'' of
        Inl e \<Rightarrow> Inl e
      | Inr None \<Rightarrow> Inr st
      | Inr (Some r) \<Rightarrow>
          (case data_json r of
             Rejected e \<Rightarrow> Inl e
           | Fulfilled payload_users \<Rightarrow> Inr (st\<lparr>users := payload_users\<rparr>)))"

definition loadUsers_settled :: "'n UserItem list response settled \<Rightarrow> 'n state \<Rightarrow> 'n state" where
  "loadUsers_settled outcome st =
     (case loadUsers_try outcome st of
        Inl err \<Rightarrow> st\<lparr>auth_error := message_or err ''Failed to load users''\<rparr>
      | Inr st' \<Rightarrow> st')
     \<lparr>usersLoading := False\<rparr>"

text \<open>
  \<open>createUser\<close>. After a response that is ok it resets the form, sets the message and
  calls the \<open>loadUsers\<close> of the render the form was submitted in, whose start is part of
  the same step; \<open>loadUsers\<close> catches its own errors, so nothing it does reaches
  \<open>createUser\<close>'s \<open>catch\<close>.
\<close>

definition createUser_start :: "'n state \<Rightarrow> 'n state \<times> 'n request list" where
  "createUser_start st =
     (st\<lparr>usersMessage := []\<rparr>,
      [\<lparr>request_method = POST, url = UsersUrl, body = NewUserJson (newUser st), signal = None\<rparr>])"

definition createUser_settled ::
  "UserRole option \<Rightarrow> unit response settled \<Rightarrow> 'n state \<Rightarrow> 'n state \<times> 'n request list" where
  "createUser_settled role outcome st =
     (case read_response outcome ''Failed to create user'' of
        Inl err \<Rightarrow> (st\<lparr>usersMessage := message_or err ''Failed to create user''\<rparr>, [])
      | Inr None \<Rightarrow> (st, [])
      | Inr (Some r) \<Rightarrow>
          loadUsers_start role
            (st\<lparr>newUser := \<lparr>new_email = [], new_username = [], new_password = [],
                              new_role = Inspector\<rparr>,
                usersMessage := ''User created.''\<rparr>))"

text \<open>
  \<open>patchUser\<close> touches no state: it issues the PATCH and, when the fetch settles,
  returns a boolean or throws.
\<close>

definition patchUser_start :: "'n \<Rightarrow> PatchPayload \<Rightarrow> 'n request" where
  "patchUser_start userId payload =
     \<lparr>request_method = PATCH, url = UserUrl userId, body = PatchJson payload, signal = None\<rparr>"

definition patchUser_settled :: "unit response settled \<Rightarrow> js_error + bool" where
  "patchUser_settled outcome =
     (case read_response outcome ''Failed to update user'' of
        Inl e \<Rightarrow> Inl e
      | Inr None \<Rightarrow> Inr False
      | Inr (Some r) \<Rightarrow> Inr True)"

section \<open>settings-client: the notifications panel\<close>

datatype scope = Selected | All

text \<open>
  \<open>runNotifications\<close>. The check of the selection is inside the \<open>try\<close>, before the
  \<open>fetch\<close>: with \<open>scope === "selected"\<close> and an empty \<open>selectedCardNo\<close> the function
  throws, and its \<open>catch\<close> and \<open>finally\<close> run at once.
\<close>

definition runNotifications_params :: "scope \<Rightarrow> 'n state \<Rightarrow> js_error + (string \<times> string) list" where
  "runNotifications_params sc st =
     (let params = [(''date'', notifyDate st)]
      in if sc = Selected then
           if selectedCardNo st = []
           then Inl (new_Error ''Select an employee to send selected notification.'')
           else Inr (params @ [(''card_no'', selectedCardNo st)])
         else Inr params)"

definition runNotifications_start :: "scope \<Rightarrow> 'n state \<Rightarrow> 'n state \<times> 'n request list" where
  "runNotifications_start sc st =
     (let st1 = st\<lparr>notifyRunning := True, notifyResult := None, notifyMessage := []\<rparr>
      in case runNotifications_params sc st of
           Inl err \<Rightarrow>
             (st1\<lparr>notifyMessage := message_or err ''Failed to run notifications'',
                   notifyRunning := False\<rparr>, [])
         | Inr params \<Rightarrow>
             (st1, [\<lparr>request_method = POST, url = NotificationsRunUrl params, body = NoBody,
                     signal = None\<rparr>]))"

definition runNotifications_try ::
  "'n NotificationRunResponse response settled \<Rightarrow> 'n state \<Rightarrow> js_error + 'n state" where
  "runNotifications_try outcome st =
     (case read_response outcome ''Failed to run notifications'' of
        Inl e \<Rightarrow> Inl e
      | Inr None \<Rightarrow> Inr st
      | Inr (Some r) \<Rightarrow>
          (case data_json r of
             Rejected e \<Rightarrow> Inl e
           | Fulfilled payload \<Rightarrow> Inr (st\<lparr>notifyResult := Some payload\<rparr>)))"

definition runNotifications_settled ::
  "'n NotificationRunResponse response settled \<Rightarrow> 'n state \<Rightarrow> 'n state" where
  "runNotifications_settled outcome st =
     (case runNotifications_try outcome st of
        Inl err \<Rightarrow> st\<lparr>notifyMessage := message_or err ''Failed to run notifications''\<rparr>
      | Inr st' \<Rightarrow> st')
     \<lparr>notifyRunning := False\<rparr>"

text \<open>
  The updater given to \<open>setSelectedCardNo\<close> when a result set arrives;
  \<open>payload.employees[0]\<close> is read only where the list is not empty.
\<close>

definition next_selected :: "'n Employee list \<Rightarrow> string \<Rightarrow> string" where
  "next_selected payload_employees current =
     (case payload_employees of
        [] \<Rightarrow> []
      | first # rest \<Rightarrow>
          if current = [] then card_no first
          else if list_ex (\<lambda>item. card_no item = current) payload_employees then current
          else card_no first)"

text \<open>
  The callback of the search timer, from the moment its \<open>fetch\<close> settles. Its \<open>catch\<close>
  leaves out an error named \<open>AbortError\<close>; its \<open>finally\<close> runs in every case.
\<close>

definition search_try :: "'n Employee list response settled \<Rightarrow> 'n state \<Rightarrow> js_error + 'n state" where
  "search_try outcome st =
     (case read_response outcome ''Failed to load employees'' of
        Inl e \<Rightarrow> Inl e
      | Inr None \<Rightarrow> Inr st
      | Inr (Some r) \<Rightarrow>
          (case data_json r of
             Rejected e \<Rightarrow> Inl e
           | Fulfilled payload_employees \<Rightarrow>
               Inr (st\<lparr>employees := payload_employees,
                       selectedCardNo := next_selected payload_employees (selectedCardNo st)\<rparr>)))"

definition search_settled :: "'n Employee list response settled \<Rightarrow> 'n state \<Rightarrow> 'n state" where
  "search_settled outcome st =
     (case search_try outcome st of
        Inl err \<Rightarrow>
          if name err \<noteq> ''AbortError''
          then st\<lparr>notifyMessage := message_or err ''Failed to load employees''\<rparr>
          else st
      | Inr st' \<Rightarrow> st')
     \<lparr>employeeLoading := False\<rparr>"

text \<open>
  What a \<open>fetch\<close> rejects with once its signal is aborted, and what reading the body of
  its response rejects with when the abort comes after the response's head.
\<close>

definition abort_error :: js_error where
  "abort_error = \<lparr>name = ''AbortError'', message = ''The operation was aborted.''\<rparr>"

section \<open>settings-client: the debounced search effect\<close>

text \<open>
  The effect with the dependencies \<open>[employeeSearch, handleUnauthorized, me?.role,
  section]\<close> needs what React and the browser keep for it: the clock in milliseconds, the
  table of pending timers, the controllers that were aborted, the cleanup function
  the last run of the effect returned (the controller and the timer it closes over),
  and, to observe it, the list of requests sent so far. A timer's callback closes over
  the \<open>employeeSearch\<close> and the controller of the render that set it.
\<close>

record timer =
  timer_id :: nat
  due :: nat
  search_text :: string
  controller :: nat

record 'n runtime =
  ui :: "'n state"
  timers :: "timer list"
  aborted :: "nat set"
  cleanup :: "(nat \<times> nat) option"
  next_id :: nat
  sent :: "'n request list"

text \<open>
  One run of the effect at time \<open>now\<close>: outside the notifications section, or for a
  user who is not an admin, it returns at once and leaves no cleanup; otherwise it
  makes a controller, sets a timer for 250 ms and returns the cleanup.
\<close>

definition run_effect :: "nat \<Rightarrow> 'n runtime \<Rightarrow> 'n runtime" where
  "run_effect now rt =
     (if page_section (ui rt) \<noteq> Notifications \<or> me_role (ui rt) \<noteq> Some Admin
      then rt\<lparr>cleanup := None\<rparr>
      else rt\<lparr>timers := timers rt @
                  [\<lparr>timer_id = Suc (next_id rt), due = now + 250,
                    search_text = employeeSearch (ui rt), controller = next_id rt\<rparr>],
              cleanup := Some (next_id rt, Suc (next_id rt)),
              next_id := Suc (Suc (next_id rt))\<rparr>)"

text \<open>The cleanup: \<open>controller.abort(); clearTimeout(timer)\<close>.\<close>

definition run_cleanup :: "'n runtime \<Rightarrow> 'n runtime" where
  "run_cleanup rt =
     (case cleanup rt of
        None \<Rightarrow> rt
      | Some (c, tid) \<Rightarrow>
          rt\<lparr>aborted := insert c (aborted rt),
              timers := filter (\<lambda>tm. timer_id tm \<noteq> tid) (timers rt),
              cleanup := None\<rparr>)"

text \<open>
  A timer fires: the callback sets the loading flag, clears the message and calls
  \<open>fetch\<close> with the controller's signal. A \<open>fetch\<close> given a signal that is aborted
  already sends nothing and rejects.
\<close>

definition fire :: "timer \<Rightarrow> 'n runtime \<Rightarrow> 'n runtime" where
  "fire tm rt =
     (let st1 = (ui rt)\<lparr>employeeLoading := True, notifyMessage := []\<rparr>
      in if controller tm \<in> aborted rt
         then rt\<lparr>ui := search_settled (Rejected abort_error) st1\<rparr>
         else rt\<lparr>ui := st1,
                 sent := sent rt @
                   [\<lparr>request_method = GET, url = EmployeesUrl (search_text tm), body = NoBody,
                     signal = Some (controller tm)\<rparr>]\<rparr>)"

text \<open>
  Time passes up to \<open>t\<close>: the timers due by then fire, oldest first (all timers have
  the same delay, so the table's order is the order of their deadlines).
\<close>

definition advance :: "nat \<Rightarrow> 'n runtime \<Rightarrow> 'n runtime" where
  "advance t rt =
     fold fire (filter (\<lambda>tm. due tm \<le> t) (timers rt))
       (rt\<lparr>timers := filter (\<lambda>tm. \<not> due tm \<le> t) (timers rt)\<rparr>)"

text \<open>
  A keystroke at time \<open>t\<close> that makes the field's text \<open>v\<close>: \<open>onChange\<close> calls
  \<open>setEmployeeSearch(v)\<close>. When the state changes React renders again, runs the
  cleanup of the effect's last run and then the effect; when \<open>v\<close> is the text the state
  already holds, no dependency changed and the effect is left alone.
\<close>

definition keystroke :: "nat \<Rightarrow> string \<Rightarrow> 'n runtime \<Rightarrow> 'n runtime" where
  "keystroke t v rt =
     (let rt1 = advance t rt
      in if v = employeeSearch (ui rt1) then rt1
         else run_effect t (run_cleanup (rt1\<lparr>ui := (ui rt1)\<lparr>employeeSearch := v\<rparr>\<rparr>)))"

fun typing :: "(nat \<times> string) list \<Rightarrow> 'n runtime \<Rightarrow> 'n runtime" where
  "typing [] rt = rt"
| "typing ((t, v) # ks) rt = typing ks (keystroke t v rt)"

text \<open>The component mounts at time \<open>t\<close> with the state \<open>st\<close>: the effect runs once.\<close>

definition mount :: "nat \<Rightarrow> 'n state \<Rightarrow> 'n runtime" where
  "mount t st =
     run_effect t \<lparr>ui = st, timers = [], aborted = {}, cleanup = None, next_id = 0, sent = []\<rparr>"

text \<open>
  A burst of keystrokes: each one comes less than 250 ms after the one before it and
  changes the text of the field.
\<close>

fun burst :: "(nat \<times> string) list \<Rightarrow> bool" where
  "burst [] = True"
| "burst [k] = True"
| "burst ((t, v) # (t', v') # ks) = (t \<le> t' \<and> t' < t + 250 \<and> v' \<noteq> v \<and> burst ((t', v') # ks))"

text \<open>
  What holds of every runtime the events above reach from \<open>mount\<close>: a pending timer is
  the one the current cleanup would clear, its controller is not aborted, and the ids
  handed out so far are below \<open>next_id\<close>.
\<close>

definition effect_inv :: "'n runtime \<Rightarrow> bool" where
  "effect_inv rt =
     ((\<forall>tm \<in> set (timers rt). cleanup rt = Some (controller tm, timer_id tm)) \<and>
      (\<forall>c \<in> aborted rt. c < next_id rt) \<and>
      (case cleanup rt of None \<Rightarrow> True | Some (c, tid) \<Rightarrow> c < next_id rt \<and> c \<notin> aborted rt))"

text \<open>
  The state a keystroke at time \<open>t\<close> with the text \<open>v\<close> leaves behind: one pending
  timer, due at \<open>t + 250\<close>, that will search for \<open>v\<close> with a controller that is not
  aborted.
\<close>

definition armed :: "nat \<Rightarrow> string \<Rightarrow> 'n runtime \<Rightarrow> bool" where
  "armed t v rt =
     (\<exists>c. timers rt = [\<lparr>timer_id = Suc c, due = t + 250, search_text = v, controller = c\<rparr>]
        \<and> cleanup rt = Some (c, Suc c) \<and> c \<notin> aborted rt \<and> c < next_id rt
        \<and> (\<forall>a \<in> aborted rt. a < next_id rt)
        \<and> employeeSearch (ui rt) = v
        \<and> page_section (ui rt) = Notifications \<and> me_role (ui rt) = Some Admin)"

text \<open>
  The fetch that was sent with the signal of controller \<open>c\<close> settles. When the
  controller was aborted before that, the promise rejects with the abort error,
  whatever the network answered; otherwise it settles as the network answered.
\<close>

definition settle :: "nat \<Rightarrow> 'n Employee list response settled \<Rightarrow> 'n runtime \<Rightarrow> 'n runtime" where
  "settle c answer rt =
     rt\<lparr>ui := search_settled (if c \<in> aborted rt then Rejected abort_error else answer) (ui rt)\<rparr>"

section \<open>Theorems\<close>

lemma getBackendApiUrl_first_non_blank:
  "getBackendApiUrl env =
     (case first_non_blank env of
        None \<Rightarrow> Inl (new_Error ''Set BACKEND_API_URL (or API_BASE_URL) to your FastAPI URL.'')
      | Some r \<Rightarrow> Inr (strip_slash r))"
  by (cases "BACKEND_API_URL env"; cases "API_BASE_URL env"; cases "NEXT_PUBLIC_API_BASE_URL env")
     (simp_all add: getBackendApiUrl_def first_non_blank_def blank_def or_js_def strip_slash_def
        endsWith_slash_def)

lemma first_non_blank_None:
  "first_non_blank env = None \<longleftrightarrow>
     blank (BACKEND_API_URL env) \<and> blank (API_BASE_URL env) \<and> blank (NEXT_PUBLIC_API_BASE_URL env)"
proof -
  have "\<not> blank v \<Longrightarrow> map_option trim v \<noteq> None" for v
    by (cases v) (simp_all add: blank_def)
  then show ?thesis
    by (simp add: first_non_blank_def)
qed

text \<open>
  C10. \<open>getBackendApiUrl\<close> throws exactly when each of the three variables is unset or
  blank after trimming; otherwise it returns the first non-blank one, trimmed, without
  one trailing slash.
\<close>

theorem getBackendApiUrl_spec:
  "((\<exists>e. getBackendApiUrl env = Inl e) =
      (blank (BACKEND_API_URL env) \<and> blank (API_BASE_URL env) \<and> blank (NEXT_PUBLIC_API_BASE_URL env)))
   \<and> (getBackendApiUrl env = Inr u) = (\<exists>r. first_non_blank env = Some r \<and> u = strip_slash r)"
  unfolding getBackendApiUrl_first_non_blank first_non_blank_None [symmetric]
  by (cases "first_non_blank env") auto

theorem getBackendApiUrl_spec_witness:
  "getBackendApiUrl \<lparr>BACKEND_API_URL = Some ''  '', API_BASE_URL = None,
      NEXT_PUBLIC_API_BASE_URL = Some '' http://api:8000/ ''\<rparr> = Inr ''http://api:8000''
   \<and> (\<exists>e. getBackendApiUrl \<lparr>BACKEND_API_URL = Some '' '', API_BASE_URL = None,
      NEXT_PUBLIC_API_BASE_URL = None\<rparr> = Inl e)"
  using getBackendApiUrl_spec [of "\<lparr>BACKEND_API_URL = Some ''  '', API_BASE_URL = None,
      NEXT_PUBLIC_API_BASE_URL = Some '' http://api:8000/ ''\<rparr>" "''http://api:8000''"]
    getBackendApiUrl_spec [of "\<lparr>BACKEND_API_URL = Some '' '', API_BASE_URL = None,
      NEXT_PUBLIC_API_BASE_URL = None\<rparr>" "[]"]
  by (simp add: first_non_blank_def blank_def trim_def is_space_def strip_slash_def)

subsection \<open>Selection after a result set\<close>



subsection \<open>The SMTP panel\<close>

lemma ok_not_unauthorized: "ok r \<Longrightarrow> \<not> handleUnauthorized (status r)"
  by (simp add: ok_def handleUnauthorized_def)

lemma read_response_ok: "ok r \<Longrightarrow> read_response (Fulfilled r) fallback = Inr (Some r)"
  by (simp add: read_response_def ok_not_unauthorized)

lemma read_response_401: "status r = 401 \<Longrightarrow> read_response (Fulfilled r) fallback = Inr None"
  by (simp add: read_response_def handleUnauthorized_def)

lemma read_response_not_ok:
  "\<not> ok r \<Longrightarrow> status r \<noteq> 401 \<Longrightarrow>
   read_response (Fulfilled r) fallback = Inl (not_ok_error r fallback)"
  by (simp add: read_response_def handleUnauthorized_def)

lemma read_response_rejected: "read_response (Rejected e) fallback = Inl e"
  by (simp add: read_response_def)

lemma message_or_shown: "fallback \<noteq> [] \<Longrightarrow> message_or err fallback \<noteq> []"
  by (simp add: message_or_def)

text \<open>
  C4. After a load and after a save that succeed (a response that is ok, whose body is
  read), the form is the old form overwritten by the payload's keys, with the empty
  password, whatever password the form held and whatever the payload carries.
\<close>

theorem password_blank_after_load_and_save:
  assumes "ok r" and "data_json r = Fulfilled payload"
  shows "password (smtpForm (loadSmtp_settled (Fulfilled r) st)) = []
       \<and> password (smtpForm (saveSmtpSettings_settled (Fulfilled r) st)) = []
       \<and> smtpForm (loadSmtp_settled (Fulfilled r) st) = merge_payload (smtpForm st) payload
       \<and> smtpForm (saveSmtpSettings_settled (Fulfilled r) st) = merge_payload (smtpForm st) payload"
  using assms
  by (simp add: loadSmtp_settled_def loadSmtp_try_def saveSmtpSettings_settled_def
      saveSmtpSettings_try_def read_response_ok merge_payload_def)

theorem password_blank_after_load_and_save_witness:
  "password (smtpForm (loadSmtp_settled
      (Fulfilled \<lparr>status = 200, error_json = Fulfilled None,
         data_json = Fulfilled \<lparr>p_host = Some ''smtp.example.com'', p_port = Some (25::int),
           p_username = None, p_password = Some ''leaked'', p_from_email = None,
           p_from_name = None, p_use_tls = None, p_use_ssl = None, p_cc_list = None,
           p_updated_at = Some None\<rparr>\<rparr>)
      ((initial_state Smtp (Some Admin) 587 ''2024-05-01'')
         \<lparr>smtpForm := \<lparr>host = ''old'', port = 587, username = ''u'', password = ''typed'',
            from_email = [], from_name = [], use_tls = True, use_ssl = False, cc_list = [],
            updated_at = None\<rparr>\<rparr>))) = []
   \<and> host (smtpForm (saveSmtpSettings_settled
      (Fulfilled \<lparr>status = 200, error_json = Fulfilled None,
         data_json = Fulfilled \<lparr>p_host = Some ''smtp.example.com'', p_port = Some (25::int),
           p_username = None, p_password = Some ''leaked'', p_from_email = None,
           p_from_name = None, p_use_tls = None, p_use_ssl = None, p_cc_list = None,
           p_updated_at = Some None\<rparr>\<rparr>)
      ((initial_state Smtp (Some Admin) 587 ''2024-05-01'')
         \<lparr>smtpForm := \<lparr>host = ''old'', port = 587, username = ''u'', password = ''typed'',
            from_email = [], from_name = [], use_tls = True, use_ssl = False, cc_list = [],
            updated_at = None\<rparr>\<rparr>))) = ''smtp.example.com''"
  using password_blank_after_load_and_save
    [of "\<lparr>status = 200, error_json = Fulfilled None,
         data_json = Fulfilled \<lparr>p_host = Some ''smtp.example.com'', p_port = Some (25::int),
           p_username = None, p_password = Some ''leaked'', p_from_email = None,
           p_from_name = None, p_use_tls = None, p_use_ssl = None, p_cc_list = None,
           p_updated_at = Some None\<rparr>\<rparr>"
        "\<lparr>p_host = Some ''smtp.example.com'', p_port = Some (25::int),
           p_username = None, p_password = Some ''leaked'', p_from_email = None,
           p_from_name = None, p_use_tls = None, p_use_ssl = None, p_cc_list = None,
           p_updated_at = Some None\<rparr>"
        "(initial_state Smtp (Some Admin) 587 ''2024-05-01'')
         \<lparr>smtpForm := \<lparr>host = ''old'', port = 587, username = ''u'', password = ''typed'',
            from_email = [], from_name = [], use_tls = True, use_ssl = False, cc_list = [],
            updated_at = None\<rparr>\<rparr>"]
  by (simp add: ok_def merge_payload_def spread_def)

text \<open>
  C6. A save that fails, by a rejected fetch or by a response that is neither ok nor a
  401, leaves the form buffer as it is and shows a message; starting the save does not
  touch the form either.
\<close>

theorem failed_save_keeps_form:
  assumes "(\<exists>e. outcome = Rejected e) \<or> (\<exists>r. outcome = Fulfilled r \<and> \<not> ok r \<and> status r \<noteq> 401)"
  shows "smtpForm (saveSmtpSettings_settled outcome st) = smtpForm st
       \<and> smtpMessage (saveSmtpSettings_settled outcome st) \<noteq> []
       \<and> smtpForm (fst (saveSmtpSettings_start st)) = smtpForm st"
  using assms
  by (auto simp: saveSmtpSettings_settled_def saveSmtpSettings_try_def saveSmtpSettings_start_def
      read_response_rejected read_response_not_ok message_or_shown)

theorem failed_save_keeps_form_witness:
  "smtpForm (saveSmtpSettings_settled
      (Fulfilled \<lparr>status = 500, error_json = Fulfilled (Some \<lparr>error = None, detail = Some ''boom''\<rparr>),
         data_json = Rejected (new_Error ''unused'')\<rparr>)
      (fst (saveSmtpSettings_start (initial_state Smtp (Some Admin) (587::int) ''2024-05-01''))))
     = smtpForm (initial_state Smtp (Some Admin) (587::int) ''2024-05-01'')
   \<and> smtpMessage (saveSmtpSettings_settled
      (Fulfilled \<lparr>status = 500, error_json = Fulfilled (Some \<lparr>error = None, detail = Some ''boom''\<rparr>),
         data_json = Rejected (new_Error ''unused'')\<rparr>)
      (fst (saveSmtpSettings_start (initial_state Smtp (Some Admin) (587::int) ''2024-05-01''))))
     = ''boom''"
  using failed_save_keeps_form
    [of "Fulfilled \<lparr>status = 500, error_json = Fulfilled (Some \<lparr>error = None, detail = Some ''boom''\<rparr>),
         data_json = Rejected (new_Error ''unused'')\<rparr>"
        "fst (saveSmtpSettings_start (initial_state Smtp (Some Admin) (587::int) ''2024-05-01''))"]
  by (simp add: ok_def saveSmtpSettings_start_def saveSmtpSettings_settled_def
      saveSmtpSettings_try_def read_response_def handleUnauthorized_def not_ok_error_def
      json_or_null_def payload_message_def new_Error_def message_or_def)











subsection \<open>The users panel\<close>

text \<open>
  C5. For every response, \<open>patchUser\<close> returns \<open>true\<close> exactly when the status is 2xx,
  returns \<open>false\<close> for the 401 the unauthorized handler takes, and for every other
  status throws an \<open>Error\<close> whose message is the body's \<open>error\<close>, else its \<open>detail\<close>,
  else, also for a body that does not parse, \<open>Failed to update user\<close>.
\<close>

theorem patchUser_result:
  "(patchUser_settled (Fulfilled r) = Inr True) = (200 \<le> status r \<and> status r \<le> 299)
   \<and> (status r = 401 \<longrightarrow> patchUser_settled (Fulfilled r) = Inr False)
   \<and> (\<not> (200 \<le> status r \<and> status r \<le> 299) \<and> status r \<noteq> 401 \<longrightarrow>
        patchUser_settled (Fulfilled r) =
          Inl \<lparr>name = ''Error'',
               message =
                 (case error_json r of
                    Rejected e \<Rightarrow> ''Failed to update user''
                  | Fulfilled None \<Rightarrow> ''Failed to update user''
                  | Fulfilled (Some p) \<Rightarrow>
                      (case error p of
                         Some m \<Rightarrow> m
                       | None \<Rightarrow>
                           (case detail p of Some d \<Rightarrow> d | None \<Rightarrow> ''Failed to update user'')))\<rparr>)"
proof -
  consider (ok) "ok r" | (unauthorized) "status r = 401" | (other) "\<not> ok r" "status r \<noteq> 401"
    by blast
  then show ?thesis
  proof cases
    case ok
    then show ?thesis
      by (simp add: patchUser_settled_def read_response_ok) (simp add: ok_def)
  next
    case unauthorized
    then show ?thesis
      by (simp add: patchUser_settled_def read_response_401)
  next
    case other
    then show ?thesis
      by (simp add: patchUser_settled_def read_response_not_ok not_ok_error_def new_Error_def
          json_or_null_def payload_message_def ok_def split: settled.splits option.splits)
  qed
qed

theorem patchUser_result_witness:
  "patchUser_settled (Fulfilled \<lparr>status = 204, error_json = Rejected (new_Error ''no body''),
       data_json = Fulfilled ()\<rparr>) = Inr True
   \<and> patchUser_settled (Fulfilled \<lparr>status = 401, error_json = Fulfilled None,
       data_json = Fulfilled ()\<rparr>) = Inr False
   \<and> patchUser_settled (Fulfilled \<lparr>status = 422,
       error_json = Fulfilled (Some \<lparr>error = None, detail = Some ''Role not allowed''\<rparr>),
       data_json = Fulfilled ()\<rparr>) = Inl \<lparr>name = ''Error'', message = ''Role not allowed''\<rparr>
   \<and> patchUser_settled (Fulfilled \<lparr>status = 500, error_json = Rejected (new_Error ''not JSON''),
       data_json = Fulfilled ()\<rparr>) = Inl \<lparr>name = ''Error'', message = ''Failed to update user''\<rparr>"
  using patchUser_result [of "\<lparr>status = 204, error_json = Rejected (new_Error ''no body''),
       data_json = Fulfilled ()\<rparr>"]
    patchUser_result [of "\<lparr>status = 401, error_json = Fulfilled None, data_json = Fulfilled ()\<rparr>"]
    patchUser_result [of "\<lparr>status = 422,
       error_json = Fulfilled (Some \<lparr>error = None, detail = Some ''Role not allowed''\<rparr>),
       data_json = Fulfilled ()\<rparr>"]
    patchUser_result [of "\<lparr>status = 500, error_json = Rejected (new_Error ''not JSON''),
       data_json = Fulfilled ()\<rparr>"]
  by simp

text \<open>
  C8. The creation form is rendered for an admin only, so the \<open>loadUsers\<close> a submission
  closes over has the admin's role. For such a submission: after a response that is ok
  the buffer holds its defaults and exactly one request follows, the reload of the
  user list; after a response that is not ok, or a rejected fetch, the buffer holds
  what it held and no request follows. Submitting does not touch the buffer.
\<close>

theorem createUser_form:
  "(ok r \<longrightarrow>
      newUser (fst (createUser_settled (Some Admin) (Fulfilled r) st)) =
        \<lparr>new_email = [], new_username = [], new_password = [], new_role = Inspector\<rparr>
    \<and> snd (createUser_settled (Some Admin) (Fulfilled r) st) =
        [\<lparr>request_method = GET, url = UsersUrl, body = NoBody, signal = None\<rparr>])
   \<and> (\<not> ok r \<longrightarrow>
        newUser (fst (createUser_settled role (Fulfilled r) st)) = newUser st
      \<and> snd (createUser_settled role (Fulfilled r) st) = [])
   \<and> newUser (fst (createUser_settled role (Rejected e) st)) = newUser st
   \<and> snd (createUser_settled role (Rejected e) st) = []
   \<and> newUser (fst (createUser_start st)) = newUser st"
proof -
  have "\<not> ok r \<Longrightarrow> newUser (fst (createUser_settled role (Fulfilled r) st)) = newUser st
          \<and> snd (createUser_settled role (Fulfilled r) st) = []"
    by (cases "status r = 401")
       (simp_all add: createUser_settled_def read_response_401 read_response_not_ok)
  moreover have "ok r \<Longrightarrow>
      newUser (fst (createUser_settled (Some Admin) (Fulfilled r) st)) =
        \<lparr>new_email = [], new_username = [], new_password = [], new_role = Inspector\<rparr>
      \<and> snd (createUser_settled (Some Admin) (Fulfilled r) st) =
        [\<lparr>request_method = GET, url = UsersUrl, body = NoBody, signal = None\<rparr>]"
    by (simp add: createUser_settled_def read_response_ok loadUsers_start_def)
  moreover have "newUser (fst (createUser_settled role (Rejected e) st)) = newUser st
      \<and> snd (createUser_settled role (Rejected e) st) = []"
    by (simp add: createUser_settled_def read_response_rejected)
  moreover have "newUser (fst (createUser_start st)) = newUser st"
    by (simp add: createUser_start_def)
  ultimately show ?thesis by blast
qed

theorem createUser_form_witness:
  "newUser (fst (createUser_settled (Some Admin)
      (Fulfilled \<lparr>status = 201, error_json = Fulfilled None, data_json = Fulfilled ()\<rparr>)
      ((initial_state Users (Some Admin) (587::int) ''2024-05-01'')
         \<lparr>newUser := \<lparr>new_email = ''a@b.c'', new_username = ''ann'', new_password = ''pw'',
                       new_role = Admin\<rparr>\<rparr>)))
     = \<lparr>new_email = [], new_username = [], new_password = [], new_role = Inspector\<rparr>
   \<and> length (snd (createUser_settled (Some Admin)
      (Fulfilled \<lparr>status = 201, error_json = Fulfilled None, data_json = Fulfilled ()\<rparr>)
      ((initial_state Users (Some Admin) (587::int) ''2024-05-01'')
         \<lparr>newUser := \<lparr>new_email = ''a@b.c'', new_username = ''ann'', new_password = ''pw'',
                       new_role = Admin\<rparr>\<rparr>))) = 1
   \<and> newUser (fst (createUser_settled (Some Admin)
      (Fulfilled \<lparr>status = 409,
         error_json = Fulfilled (Some \<lparr>error = Some ''Username taken'', detail = None\<rparr>),
         data_json = Fulfilled ()\<rparr>)
      ((initial_state Users (Some Admin) (587::int) ''2024-05-01'')
         \<lparr>newUser := \<lparr>new_email = ''a@b.c'', new_username = ''ann'', new_password = ''pw'',
                       new_role = Admin\<rparr>\<rparr>)))
     = \<lparr>new_email = ''a@b.c'', new_username = ''ann'', new_password = ''pw'', new_role = Admin\<rparr>"
  using createUser_form
    [of "\<lparr>status = 201, error_json = Fulfilled None, data_json = Fulfilled ()\<rparr>"
        "(initial_state Users (Some Admin) (587::int) ''2024-05-01'')
         \<lparr>newUser := \<lparr>new_email = ''a@b.c'', new_username = ''ann'', new_password = ''pw'',
                       new_role = Admin\<rparr>\<rparr>"
        "Some Admin" "new_Error ''Failed to fetch''"]
    createUser_form
    [of "\<lparr>status = 409,
         error_json = Fulfilled (Some \<lparr>error = Some ''Username taken'', detail = None\<rparr>),
         data_json = Fulfilled ()\<rparr>"
        "(initial_state Users (Some Admin) (587::int) ''2024-05-01'')
         \<lparr>newUser := \<lparr>new_email = ''a@b.c'', new_username = ''ann'', new_password = ''pw'',
                       new_role = Admin\<rparr>\<rparr>"
        "Some Admin" "new_Error ''Failed to fetch''"]
  by (simp add: initial_state_def ok_def)

subsection \<open>The notifications panel\<close>

text \<open>
  C7. With an empty selection, \<open>runNotifications("selected")\<close> issues no request, shows
  the validation message, and leaves the run report cleared: no response can replace
  it, there being no request.
\<close>

theorem runNotifications_selected_empty:
  assumes "selectedCardNo st = []"
  shows "snd (runNotifications_start Selected st) = []
       \<and> notifyMessage (fst (runNotifications_start Selected st)) =
           ''Select an employee to send selected notification.''
       \<and> notifyResult (fst (runNotifications_start Selected st)) = None
       \<and> notifyRunning (fst (runNotifications_start Selected st)) = False"
  using assms
  by (simp add: runNotifications_start_def runNotifications_params_def new_Error_def
      message_or_def)

theorem runNotifications_selected_empty_witness:
  "runNotifications_start Selected (initial_state Notifications (Some Admin) (587::int) ''2024-05-01'')
     = ((initial_state Notifications (Some Admin) (587::int) ''2024-05-01'')
          \<lparr>notifyMessage := ''Select an employee to send selected notification.''\<rparr>, [])"
  using runNotifications_selected_empty
    [of "initial_state Notifications (Some Admin) (587::int) ''2024-05-01''"]
  by (simp add: initial_state_def runNotifications_start_def runNotifications_params_def
      new_Error_def message_or_def)

subsection \<open>The debounced search\<close>

lemma fire_fields:
  "timers (fire tm rt) = timers rt" "aborted (fire tm rt) = aborted rt"
  "cleanup (fire tm rt) = cleanup rt" "next_id (fire tm rt) = next_id rt"
  "employeeSearch (ui (fire tm rt)) = employeeSearch (ui rt)"
  "page_section (ui (fire tm rt)) = page_section (ui rt)"
  "me_role (ui (fire tm rt)) = me_role (ui rt)"
  by (simp_all add: fire_def Let_def search_settled_def search_try_def read_response_def abort_error_def)

lemma fold_fire_fields:
  "timers (fold fire tms rt) = timers rt" "aborted (fold fire tms rt) = aborted rt"
  "cleanup (fold fire tms rt) = cleanup rt" "next_id (fold fire tms rt) = next_id rt"
  "employeeSearch (ui (fold fire tms rt)) = employeeSearch (ui rt)"
  "page_section (ui (fold fire tms rt)) = page_section (ui rt)"
  "me_role (ui (fold fire tms rt)) = me_role (ui rt)"
  by (induction tms arbitrary: rt; simp add: fire_fields)+

lemma advance_fields:
  "timers (advance t rt) = filter (\<lambda>tm. \<not> due tm \<le> t) (timers rt)"
  "aborted (advance t rt) = aborted rt"
  "cleanup (advance t rt) = cleanup rt" "next_id (advance t rt) = next_id rt"
  "employeeSearch (ui (advance t rt)) = employeeSearch (ui rt)"
  "page_section (ui (advance t rt)) = page_section (ui rt)"
  "me_role (ui (advance t rt)) = me_role (ui rt)"
  by (simp_all add: advance_def fold_fire_fields)

lemma advance_nothing_due:
  assumes "\<forall>tm \<in> set (timers rt). t < due tm"
  shows "advance t rt = rt"
proof -
  have "filter (\<lambda>tm. due tm \<le> t) (timers rt) = []"
    using assms by (auto simp: filter_empty_conv)
  moreover have "filter (\<lambda>tm. \<not> due tm \<le> t) (timers rt) = timers rt"
    using assms by (auto simp: filter_id_conv)
  ultimately show ?thesis by (simp add: advance_def)
qed

lemma effect_inv_advance: "effect_inv rt \<Longrightarrow> effect_inv (advance t rt)"
  by (auto simp: effect_inv_def advance_fields split: option.splits)

lemma effect_inv_settle: "effect_inv rt \<Longrightarrow> effect_inv (settle c answer rt)"
  by (auto simp: effect_inv_def settle_def split: option.splits)

lemma armed_effect_inv: "armed t v rt \<Longrightarrow> effect_inv rt"
  by (auto simp: armed_def effect_inv_def)

lemma effect_after_cleanup:
  assumes "effect_inv rt" "page_section (ui rt) = Notifications" "me_role (ui rt) = Some Admin"
  shows "armed t v (run_effect t (run_cleanup (rt\<lparr>ui := (ui rt)\<lparr>employeeSearch := v\<rparr>\<rparr>)))"
    and "sent (run_effect t (run_cleanup (rt\<lparr>ui := (ui rt)\<lparr>employeeSearch := v\<rparr>\<rparr>))) = sent rt"
proof -
  let ?rt = "rt\<lparr>ui := (ui rt)\<lparr>employeeSearch := v\<rparr>\<rparr>"
  show "sent (run_effect t (run_cleanup ?rt)) = sent rt"
    by (simp add: run_effect_def run_cleanup_def split: option.splits prod.splits)
  show "armed t v (run_effect t (run_cleanup ?rt))"
  proof (cases "cleanup rt")
    case None
    with assms(1) have "timers rt = []"
      by (cases "timers rt") (auto simp: effect_inv_def)
    with None assms show ?thesis
      by (auto simp: armed_def run_effect_def run_cleanup_def effect_inv_def)
  next
    case (Some p)
    obtain c tid where p: "p = (c, tid)" by (cases p)
    with Some assms(1) have "filter (\<lambda>tm. timer_id tm \<noteq> tid) (timers rt) = []"
      by (auto simp: effect_inv_def filter_empty_conv)
    with Some p assms show ?thesis
      by (auto simp: armed_def run_effect_def run_cleanup_def effect_inv_def less_Suc_eq)
  qed
qed

lemma keystroke_changes:
  assumes "effect_inv rt" "page_section (ui rt) = Notifications" "me_role (ui rt) = Some Admin"
    and "v \<noteq> employeeSearch (ui rt)"
  shows "armed t v (keystroke t v rt)" and "sent (keystroke t v rt) = sent (advance t rt)"
proof -
  have k: "keystroke t v rt =
      run_effect t (run_cleanup ((advance t rt)\<lparr>ui := (ui (advance t rt))\<lparr>employeeSearch := v\<rparr>\<rparr>))"
    using assms(4) by (simp add: keystroke_def Let_def advance_fields)
  show "armed t v (keystroke t v rt)"
    unfolding k using assms by (intro effect_after_cleanup effect_inv_advance) (simp_all add: advance_fields)
  show "sent (keystroke t v rt) = sent (advance t rt)"
    unfolding k using assms by (intro effect_after_cleanup effect_inv_advance) (simp_all add: advance_fields)
qed

lemma keystroke_armed:
  assumes "armed t v rt" "t' < t + 250" "v' \<noteq> v"
  shows "armed t' v' (keystroke t' v' rt)" and "sent (keystroke t' v' rt) = sent rt"
proof -
  have a: "advance t' rt = rt"
    using assms(1,2) by (intro advance_nothing_due) (auto simp: armed_def)
  have h: "effect_inv rt" "page_section (ui rt) = Notifications" "me_role (ui rt) = Some Admin"
    "v' \<noteq> employeeSearch (ui rt)"
    using assms(1,3) armed_effect_inv [OF assms(1)] by (auto simp: armed_def)
  show "armed t' v' (keystroke t' v' rt)" by (rule keystroke_changes(1) [OF h])
  show "sent (keystroke t' v' rt) = sent rt" using keystroke_changes(2) [OF h, of t'] a by simp
qed

lemma typing_burst:
  assumes "armed t v rt" "burst ((t, v) # ks)"
  shows "armed (fst (last ((t, v) # ks))) (snd (last ((t, v) # ks))) (typing ks rt)
       \<and> sent (typing ks rt) = sent rt"
  using assms
proof (induction ks arbitrary: t v rt)
  case Nil
  then show ?case by simp
next
  case (Cons k ks)
  obtain t' v' where k: "k = (t', v')" by (cases k)
  from Cons.prems(2) k have b: "t' < t + 250" "v' \<noteq> v" "burst ((t', v') # ks)" by simp_all
  note ka = keystroke_armed [OF Cons.prems(1) b(1,2)]
  from Cons.IH [OF ka(1) b(3)] ka(2) k show ?case by simp
qed

lemma advance_armed:
  assumes "armed t v rt" "t + 250 \<le> T"
  shows "\<exists>c. cleanup rt = Some (c, Suc c) \<and> sent (advance T rt) =
             sent rt @ [\<lparr>request_method = GET, url = EmployeesUrl v, body = NoBody, signal = Some c\<rparr>]
           \<and> timers (advance T rt) = []"
  using assms by (auto simp: armed_def advance_def fire_def Let_def)

lemma burst_take: "burst ks \<Longrightarrow> burst (take n ks)"
proof (induction ks arbitrary: n rule: burst.induct)
  case 1
  then show ?case by simp
next
  case (2 k)
  then show ?case by (cases n) simp_all
next
  case (3 t v t' v' ks)
  show ?case
  proof (cases n)
    case 0
    then show ?thesis by simp
  next
    case (Suc m)
    with 3(2) 3(1) [of m] show ?thesis by (cases m) simp_all
  qed
qed

lemma effect_inv_mount: "effect_inv (mount t st)"
  by (simp add: effect_inv_def mount_def run_effect_def)

lemma effect_inv_keystroke:
  assumes "effect_inv rt"
  shows "effect_inv (keystroke t v rt)"
proof -
  let ?rt1 = "advance t rt"
  have 1: "effect_inv ?rt1" by (rule effect_inv_advance [OF assms])
  show ?thesis
  proof (cases "v = employeeSearch (ui ?rt1)")
    case True
    with 1 show ?thesis by (simp add: keystroke_def Let_def)
  next
    case False
    let ?rt2 = "run_cleanup (?rt1\<lparr>ui := (ui ?rt1)\<lparr>employeeSearch := v\<rparr>\<rparr>)"
    have 2: "timers ?rt2 = [] \<and> cleanup ?rt2 = None \<and> (\<forall>a \<in> aborted ?rt2. a < next_id ?rt2)"
    proof (cases "cleanup ?rt1")
      case None
      with 1 have "timers ?rt1 = []"
        by (cases "timers ?rt1") (auto simp: effect_inv_def)
      with None 1 show ?thesis
        by (auto simp: run_cleanup_def effect_inv_def)
    next
      case (Some p)
      obtain c tid where p: "p = (c, tid)" by (cases p)
      with Some 1 have "filter (\<lambda>tm. timer_id tm \<noteq> tid) (timers ?rt1) = []"
        by (auto simp: effect_inv_def filter_empty_conv)
      with Some p 1 show ?thesis
        by (auto simp: run_cleanup_def effect_inv_def)
    qed
    have "effect_inv (run_effect t ?rt2)"
      using 2 by (auto simp: effect_inv_def run_effect_def less_Suc_eq)
    with False show ?thesis by (simp add: keystroke_def Let_def)
  qed
qed

lemma last_take_nth:
  assumes "0 < n" "n \<le> length xs"
  shows "last (take n xs) = xs ! (n - 1)"
proof -
  have "take n xs \<noteq> []" using assms by auto
  then have "last (take n xs) = take n xs ! (length (take n xs) - 1)"
    by (rule last_conv_nth)
  also have "\<dots> = take n xs ! (n - 1)" using assms by (simp add: min_def)
  also have "\<dots> = xs ! (n - 1)" using assms by simp
  finally show ?thesis .
qed

lemmas run_defs = mount_def run_effect_def run_cleanup_def advance_def fire_def keystroke_def
  initial_state_def Let_def

text \<open>
  C1. On the notifications panel of an admin, take a burst of keystrokes: each comes
  less than 250 ms after the one before and changes the field's text. From the first
  keystroke until any time at least 250 ms after the last, exactly one request is sent
  beyond those already due: a GET of the employees URL whose \<open>search\<close> parameter is the
  text of the last keystroke, with the signal of that keystroke's controller. After
  each keystroke of the burst the only pending timer is that keystroke's own: the
  timers of the earlier ones are cleared.
\<close>

theorem debounce_one_request:
  assumes "effect_inv rt" and "page_section (ui rt) = Notifications" and "me_role (ui rt) = Some Admin"
    and "burst ((t, v) # ks)" and "v \<noteq> employeeSearch (ui rt)"
    and "fst (last ((t, v) # ks)) + 250 \<le> T"
  shows "(\<exists>c. sent (advance T (typing ((t, v) # ks) rt)) =
               sent (advance t rt) @
                 [\<lparr>request_method = GET, url = EmployeesUrl (snd (last ((t, v) # ks))),
                   body = NoBody, signal = Some c\<rparr>])
       \<and> (\<forall>n. 0 < n \<and> n \<le> length ((t, v) # ks) \<longrightarrow>
            (\<exists>c. timers (typing (take n ((t, v) # ks)) rt) =
               [\<lparr>timer_id = Suc c, due = fst (((t, v) # ks) ! (n - 1)) + 250,
                 search_text = snd (((t, v) # ks) ! (n - 1)), controller = c\<rparr>]))"
proof -
  note k = keystroke_changes [OF assms(1,2,3,5), of t]
  have prefix: "armed (fst (last ((t, v) # ks'))) (snd (last ((t, v) # ks'))) (typing ((t, v) # ks') rt)
      \<and> sent (typing ((t, v) # ks') rt) = sent (advance t rt)" if "burst ((t, v) # ks')" for ks'
    using typing_burst [OF k(1) that] k(2) by simp
  from prefix [OF assms(4)] advance_armed [OF _ assms(6)]
  have one: "\<exists>c. sent (advance T (typing ((t, v) # ks) rt)) =
               sent (advance t rt) @
                 [\<lparr>request_method = GET, url = EmployeesUrl (snd (last ((t, v) # ks))),
                   body = NoBody, signal = Some c\<rparr>]"
    by metis
  have each: "\<exists>c. timers (typing (take n ((t, v) # ks)) rt) =
               [\<lparr>timer_id = Suc c, due = fst (((t, v) # ks) ! (n - 1)) + 250,
                 search_text = snd (((t, v) # ks) ! (n - 1)), controller = c\<rparr>]"
    if n: "0 < n" "n \<le> length ((t, v) # ks)" for n
  proof -
    from n obtain m where m: "n = Suc m" by (cases n) auto
    have b: "burst ((t, v) # take m ks)"
      using burst_take [OF assms(4), of n] m by simp
    have l: "last ((t, v) # take m ks) = ((t, v) # ks) ! (n - 1)"
      using last_take_nth [OF n] m by simp
    from prefix [OF b] l m show ?thesis
      by (auto simp: armed_def)
  qed
  from one each show ?thesis by blast
qed

theorem debounce_one_request_witness:
  "burst [(1000, ''a''), (1100, ''ab''), (1300, ''abc'')]
   \<and> effect_inv (mount 0 (initial_state Notifications (Some Admin) (587::int) ''2024-05-01''))
   \<and> sent (advance 1550 (typing [(1000, ''a''), (1100, ''ab''), (1300, ''abc'')]
        (mount 0 (initial_state Notifications (Some Admin) (587::int) ''2024-05-01''))))
      = [\<lparr>request_method = GET, url = EmployeesUrl [], body = NoBody, signal = Some 0\<rparr>,
         \<lparr>request_method = GET, url = EmployeesUrl ''abc'', body = NoBody, signal = Some 6\<rparr>]
   \<and> timers (typing [(1000, ''a''), (1100, ''ab'')]
        (mount 0 (initial_state Notifications (Some Admin) (587::int) ''2024-05-01'')))
      = [\<lparr>timer_id = 5, due = 1350, search_text = ''ab'', controller = 4\<rparr>]"
  using debounce_one_request
    [of "mount 0 (initial_state Notifications (Some Admin) (587::int) ''2024-05-01'')"
        1000 "''a''" "[(1100, ''ab''), (1300, ''abc'')]" 1550]
  by (simp add: run_defs effect_inv_def)

text \<open>
  C2, as the claim states it, fails. A request is sent for \<open>a\<close> at 250 ms; the keystroke
  at 300 ms aborts its controller; when its fetch then settles, the \<open>finally\<close> of the
  callback clears the loading flag the callback had set, so the displayed state
  changes.
\<close>

theorem superseded_search_counterexample:
  "sent (keystroke 300 ''ab'' (advance 250 (keystroke 0 ''a''
      (mount 0 (initial_state Notifications (Some Admin) (587::int) ''2024-05-01'')))))
     = [\<lparr>request_method = GET, url = EmployeesUrl ''a'', body = NoBody, signal = Some 2\<rparr>]
   \<and> 2 \<in> aborted (keystroke 300 ''ab'' (advance 250 (keystroke 0 ''a''
      (mount 0 (initial_state Notifications (Some Admin) (587::int) ''2024-05-01'')))))
   \<and> employeeLoading (ui (keystroke 300 ''ab'' (advance 250 (keystroke 0 ''a''
      (mount 0 (initial_state Notifications (Some Admin) (587::int) ''2024-05-01''))))))
   \<and> \<not> employeeLoading (ui (settle 2
        (Fulfilled \<lparr>status = 200, error_json = Fulfilled None,
           data_json = Fulfilled [\<lparr>emp_id = Inl 1, card_no = ''A1'', employee_name = ''Ann''\<rparr>]\<rparr>)
        (keystroke 300 ''ab'' (advance 250 (keystroke 0 ''a''
          (mount 0 (initial_state Notifications (Some Admin) (587::int) ''2024-05-01'')))))))"
  by (simp add: run_defs settle_def search_settled_def search_try_def read_response_def
      abort_error_def)

text \<open>
  C2, amended. When the controller of a search request is aborted before its fetch
  settles, then, whatever the network answers, the employee list, the selection and
  the message stay as they are and the abort error is not shown: the one change is
  that the loading flag is cleared. The same holds when the abort error comes from
  reading the body of a response that is ok.
\<close>

theorem aborted_search_settles_quietly:
  assumes "c \<in> aborted rt"
  shows "settle c answer rt = rt\<lparr>ui := (ui rt)\<lparr>employeeLoading := False\<rparr>\<rparr>
       \<and> employees (ui (settle c answer rt)) = employees (ui rt)
       \<and> selectedCardNo (ui (settle c answer rt)) = selectedCardNo (ui rt)
       \<and> notifyMessage (ui (settle c answer rt)) = notifyMessage (ui rt)
       \<and> (ok r \<and> data_json r = Rejected abort_error \<longrightarrow>
            search_settled (Fulfilled r) st = st\<lparr>employeeLoading := False\<rparr>)"
  using assms
  by (simp add: settle_def search_settled_def search_try_def read_response_rejected
      read_response_ok abort_error_def)

theorem aborted_search_settles_quietly_witness:
  "2 \<in> aborted (keystroke 300 ''ab'' (advance 250 (keystroke 0 ''a''
      (mount 0 (initial_state Notifications (Some Admin) (587::int) ''2024-05-01'')))))
   \<and> employees (ui (settle 2
        (Fulfilled \<lparr>status = 200, error_json = Fulfilled None,
           data_json = Fulfilled [\<lparr>emp_id = Inl 1, card_no = ''A1'', employee_name = ''Ann''\<rparr>]\<rparr>)
        (keystroke 300 ''ab'' (advance 250 (keystroke 0 ''a''
          (mount 0 (initial_state Notifications (Some Admin) (587::int) ''2024-05-01''))))))) = []
   \<and> selectedCardNo (ui (settle 2
        (Fulfilled \<lparr>status = 200, error_json = Fulfilled None,
           data_json = Fulfilled [\<lparr>emp_id = Inl 1, card_no = ''A1'', employee_name = ''Ann''\<rparr>]\<rparr>)
        (keystroke 300 ''ab'' (advance 250 (keystroke 0 ''a''
          (mount 0 (initial_state Notifications (Some Admin) (587::int) ''2024-05-01''))))))) = []"
  using aborted_search_settles_quietly
    [of 2 "keystroke 300 ''ab'' (advance 250 (keystroke 0 ''a''
          (mount 0 (initial_state Notifications (Some Admin) (587::int) ''2024-05-01''))))"
        "Fulfilled \<lparr>status = 200, error_json = Fulfilled None,
           data_json = Fulfilled [\<lparr>emp_id = Inl 1, card_no = ''A1'', employee_name = ''Ann''\<rparr>]\<rparr>"
        "\<lparr>status = 200, error_json = Fulfilled None, data_json = Rejected abort_error\<rparr>"
        "initial_state Notifications (Some Admin) (587::int) ''2024-05-01''"]
  by (simp add: run_defs settle_def search_settled_def search_try_def read_response_def
      abort_error_def)

text \<open>
  The case the amended claim leaves out: the abort comes while the body of a response
  that is not ok is read. \<open>.catch(() => null)\<close> swallows the abort error, the generic
  error is thrown in its place, and its message is shown.
\<close>

lemma abort_while_reading_error_body:
  assumes "\<not> ok r" and "status r \<noteq> 401" and "error_json r = Rejected abort_error"
  shows "notifyMessage (search_settled (Fulfilled r) st) = ''Failed to load employees''"
  using assms
  by (simp add: search_settled_def search_try_def read_response_not_ok not_ok_error_def
      json_or_null_def payload_message_def new_Error_def message_or_def)

end
